theory Spec2Isabelle
  imports Main "HOL-Library.Log_Nat" "HOL-Library.Word"
begin

text \<open>
  A model of \<^verbatim>\<open>discord/opus.py\<close>, the binding of the Opus encoder through
  ctypes, and of \<^verbatim>\<open>discord/ext/commands/context.py\<close>. Module state and the
  native library are explicit: every function takes the world and returns it.
  Exceptions are values of a sum type. Calls to the logger are left out, and what
  ctypes does to marshal an argument belongs to the native function called.
\<close>

section \<open>Python values and exceptions\<close>

text \<open>
  The ways a call of the modelled code ends without a value. \<open>OpusError\<close> and
  \<open>OpusNotLoaded\<close> are the two exception classes of \<^verbatim>\<open>discord/opus.py\<close>; the
  others but the last are built-in exceptions raised by the interpreter on behalf
  of the code (a failed \<^verbatim>\<open>LoadLibrary\<close>, a missing attribute, a missing
  dictionary key, a float that cannot hold a quotient, a keyword argument that
  collides with a parameter). \<open>Segfault\<close> is no exception: the native code has read
  through a null pointer and the operating system has killed the process, so
  nothing of the program runs after it and no handler sees it.
\<close>

datatype py_error =
    OSError
  | AttributeError string
  | KeyError string
  | ZeroDivisionError
  | OverflowError
  | ValueError
  | TypeError
  | OpusNotLoaded
  | OpusError int string
  | Segfault

section \<open>Python float arithmetic\<close>

text \<open>
  \<^verbatim>\<open>self.sampling_rate / 1000 * self.frame_length\<close> is evaluated in binary64
  floating point: \<^verbatim>\<open>/\<close> on two ints is true division and yields the correctly
  rounded float, \<^verbatim>\<open>*\<close> of a float and an int converts the int and rounds the
  product, \<^verbatim>\<open>int()\<close> truncates towards zero. A float is modelled by the rational
  it denotes, or an infinity with its sign (\<open>True\<close> for negative), or not-a-number.
  The sign of zero is not kept: \<^verbatim>\<open>int()\<close> gives \<open>0\<close> for both zeros.
\<close>

datatype pyfloat = Finite rat | Infinity bool | NaN

text \<open>For positive \<open>x\<close>, the exponent \<open>k\<close> with \<open>2^k \<le> x < 2^(k+1)\<close>.\<close>

definition floor_log2 :: "rat \<Rightarrow> int" where
  "floor_log2 x =
     (let (p, q) = quotient_of x; d = bitlen p - bitlen q
      in if 2 powi d \<le> x then d else d - 1)"

definition round_half_even :: "rat \<Rightarrow> int" where
  "round_half_even x =
     (let f = \<lfloor>x\<rfloor>; r = x - of_int f
      in if r < 1 / 2 then f else if 1 / 2 < r then f + 1
         else if even f then f else f + 1)"

text \<open>
  Rounding to the nearest binary64 value, ties to even: a 53-bit significand, the
  least exponent of a unit in the last place \<open>-1074\<close> (subnormal numbers), overflow
  to infinity from \<open>2^1024\<close> on.
\<close>

definition round_binary64 :: "rat \<Rightarrow> pyfloat" where
  "round_binary64 x =
     (if x = 0 then Finite 0
      else let e = max (floor_log2 \<bar>x\<bar> - 52) (- 1074);
               m = round_half_even (\<bar>x\<bar> / 2 powi e);
               y = of_int m * 2 powi e
           in if 2 ^ 1024 \<le> y then Infinity (x < 0) else Finite (sgn x * y))"

text \<open>\<^verbatim>\<open>a / b\<close> on ints: the quotient is rounded once; a quotient too large for
  a float raises \<^verbatim>\<open>OverflowError\<close>.\<close>

definition int_truediv :: "int \<Rightarrow> int \<Rightarrow> py_error + pyfloat" where
  "int_truediv a b =
     (if b = 0 then Inl ZeroDivisionError
      else case round_binary64 (of_int a / of_int b) of
             Finite q \<Rightarrow> Inr (Finite q)
           | _ \<Rightarrow> Inl OverflowError)"

text \<open>The conversion of an int operand to float in mixed arithmetic.\<close>

definition float_of_int :: "int \<Rightarrow> py_error + pyfloat" where
  "float_of_int n =
     (case round_binary64 (of_int n) of
        Finite q \<Rightarrow> Inr (Finite q)
      | _ \<Rightarrow> Inl OverflowError)"

text \<open>Float multiplication never raises: it overflows to an infinity.\<close>

fun float_mul :: "pyfloat \<Rightarrow> pyfloat \<Rightarrow> pyfloat" where
  "float_mul (Finite x) (Finite y) = round_binary64 (x * y)"
| "float_mul (Infinity s) (Finite y) = (if y = 0 then NaN else Infinity (s \<noteq> (y < 0)))"
| "float_mul (Finite x) (Infinity s) = (if x = 0 then NaN else Infinity (s \<noteq> (x < 0)))"
| "float_mul (Infinity s) (Infinity t) = Infinity (s \<noteq> t)"
| "float_mul NaN _ = NaN"
| "float_mul _ NaN = NaN"

text \<open>\<^verbatim>\<open>int(x)\<close> on a float truncates towards zero.\<close>

fun py_int :: "pyfloat \<Rightarrow> py_error + int" where
  "py_int (Finite x) = Inr (if 0 \<le> x then \<lfloor>x\<rfloor> else \<lceil>x\<rceil>)"
| "py_int (Infinity _) = Inl OverflowError"
| "py_int NaN = Inl ValueError"

text \<open>\<^verbatim>\<open>float * int\<close>.\<close>

definition float_mul_int :: "pyfloat \<Rightarrow> int \<Rightarrow> py_error + pyfloat" where
  "float_mul_int x n =
     (case float_of_int n of Inl e \<Rightarrow> Inl e | Inr y \<Rightarrow> Inr (float_mul x y))"

section \<open>The native library as seen through ctypes\<close>

text \<open>
  A pointer returned by the library is an address; Python's \<^verbatim>\<open>None\<close> passed
  where a pointer is expected is the null pointer, so a pointer argument is a
  \<open>handle option\<close>.
\<close>

type_synonym handle = nat
type_synonym bytes = "8 word list"

datatype ctype = c_int | c_int32 | c_char_p | c_int_ptr | c_int16_ptr | EncoderStructPtr

text \<open>
  A loaded shared object: the symbols it exports, the signatures registered on
  them so far, and what the five functions do. The library keeps state of its own
  (the encoders it has allocated), of an arbitrary type \<open>'n\<close> threaded through the
  calls. \<open>opus_strerror\<close> gives the message already decoded; \<open>opus_encoder_create\<close>
  gives the pointer and the value stored through its error out-parameter;
  \<open>opus_encode\<close> gets the output buffer and gives the status and the bytes now in
  the buffer. That is what \<open>opus_encode\<close> does when it returns; handed a null
  encoder, a library that reads the encoder's state through the pointer does not
  return, and \<open>null_encoder_fatal\<close> says whether the library is of that kind.
  libopus is. (\<open>opus_encoder_destroy\<close> on a null pointer frees nothing and returns.)
\<close>

record 'n cdll =
  exports :: "string list"
  signatures :: "string \<rightharpoonup> ctype list \<times> ctype option"
  opus_strerror :: "int \<Rightarrow> string"
  opus_encoder_get_size :: "int \<Rightarrow> int"
  opus_encoder_create :: "'n \<Rightarrow> int \<Rightarrow> int \<Rightarrow> int \<Rightarrow> 'n \<times> handle \<times> int"
  opus_encode :: "'n \<Rightarrow> handle option \<Rightarrow> bytes \<Rightarrow> int \<Rightarrow> bytes \<Rightarrow> int \<Rightarrow> 'n \<times> int \<times> bytes"
  null_encoder_fatal :: bool
  opus_encoder_destroy :: "'n \<Rightarrow> handle option \<Rightarrow> 'n"

text \<open>The calls made into the library, in order, with the arguments passed.\<close>

datatype native_call =
    Strerror int
  | EncoderCreate int int int
  | Encode "handle option" bytes int int
  | EncoderDestroy "handle option"

text \<open>What the operating system offers: opening a shared object by name
  (\<open>None\<close> when it cannot be opened) and \<^verbatim>\<open>ctypes.util.find_library\<close>.\<close>

record 'n os_env =
  LoadLibrary :: "string option \<Rightarrow> 'n cdll option"
  find_library :: "string \<Rightarrow> string option"

text \<open>The module's global \<^verbatim>\<open>_lib\<close>, the library's own state and the trace of
  native calls.\<close>

record 'n world =
  priv_lib :: "'n cdll option"
  native :: 'n
  calls :: "native_call list"

section \<open>Loading the library\<close>

definition exported_functions :: "(string \<times> ctype list \<times> ctype option) list" where
  "exported_functions =
     [(''opus_strerror'', [c_int], Some c_char_p),
      (''opus_encoder_get_size'', [c_int], Some c_int),
      (''opus_encoder_create'', [c_int, c_int, c_int, c_int_ptr], Some EncoderStructPtr),
      (''opus_encode'', [EncoderStructPtr, c_int16_ptr, c_int, c_char_p, c_int32], Some c_int32),
      (''opus_encoder_destroy'', [EncoderStructPtr], None)]"

text \<open>The loop of \<^verbatim>\<open>libopus_loader\<close>: \<^verbatim>\<open>getattr\<close> raises for a symbol the
  library does not export and the exception is raised again; otherwise the
  argument and result types are set on the function.\<close>

fun register_functions ::
  "(string \<times> ctype list \<times> ctype option) list \<Rightarrow> 'n cdll \<Rightarrow> py_error + 'n cdll" where
  "register_functions [] lib = Inr lib"
| "register_functions (item # items) lib =
     (if fst item \<in> set (exports lib)
      then register_functions items
             (lib\<lparr>signatures := (signatures lib)(fst item \<mapsto> snd item)\<rparr>)
      else Inl (AttributeError (fst item)))"

definition libopus_loader :: "'n os_env \<Rightarrow> string option \<Rightarrow> py_error + 'n cdll" where
  "libopus_loader env name =
     (case LoadLibrary env name of
        None \<Rightarrow> Inl OSError
      | Some lib \<Rightarrow> register_functions exported_functions lib)"

text \<open>The value of \<^verbatim>\<open>_lib\<close> after the module is imported: any exception of the
  automatic load is swallowed.\<close>

definition initial_lib :: "'n os_env \<Rightarrow> 'n cdll option" where
  "initial_lib env =
     (case libopus_loader env (find_library env ''opus'') of
        Inl _ \<Rightarrow> None
      | Inr lib \<Rightarrow> Some lib)"

definition load_opus :: "'n os_env \<Rightarrow> string \<Rightarrow> 'n world \<Rightarrow> 'n world \<times> (py_error + unit)" where
  "load_opus env name w =
     (case libopus_loader env (Some name) of
        Inl e \<Rightarrow> (w, Inl e)
      | Inr lib \<Rightarrow> (w\<lparr>priv_lib := Some lib\<rparr>, Inr ()))"

definition is_loaded :: "'n world \<Rightarrow> bool" where
  "is_loaded w = (priv_lib w \<noteq> None)"

text \<open>Constructing an \<^verbatim>\<open>OpusError\<close> asks the library for the message; with no
  library bound the attribute access on \<^verbatim>\<open>None\<close> raises instead.\<close>

definition new_OpusError :: "'n world \<Rightarrow> int \<Rightarrow> 'n world \<times> py_error" where
  "new_OpusError w code =
     (case priv_lib w of
        None \<Rightarrow> (w, AttributeError ''opus_strerror'')
      | Some lib \<Rightarrow>
          (w\<lparr>calls := calls w @ [Strerror code]\<rparr>, OpusError code (opus_strerror lib code)))"

section \<open>The encoder\<close>

definition OK :: int where "OK = 0"
definition APPLICATION_AUDIO :: int where "APPLICATION_AUDIO = 2049"
definition APPLICATION_VOIP :: int where "APPLICATION_VOIP = 2048"
definition APPLICATION_LOWDELAY :: int where "APPLICATION_LOWDELAY = 2051"

text \<open>
  An \<^verbatim>\<open>Encoder\<close> object: each attribute is \<open>None\<close> until it is assigned. The
  attribute \<^verbatim>\<open>_state\<close> holds a pointer or Python's \<^verbatim>\<open>None\<close>, so it has three
  values: \<open>None\<close> (no such attribute), \<open>Some None\<close> and \<open>Some (Some p)\<close>.
\<close>

record encoder =
  sampling_rate :: "int option"
  channels :: "int option"
  application :: "int option"
  frame_length :: "int option"
  sample_size :: "int option"
  samples_per_frame :: "int option"
  frame_size :: "int option"
  priv_state :: "handle option option"

definition new_object :: encoder where
  "new_object =
     \<lparr>sampling_rate = None, channels = None, application = None, frame_length = None,
      sample_size = None, samples_per_frame = None, frame_size = None, priv_state = None\<rparr>"

text \<open>Reading an attribute that may be missing.\<close>

definition getattr :: "string \<Rightarrow> 'a option \<Rightarrow> py_error + 'a" where
  "getattr name v = (case v of None \<Rightarrow> Inl (AttributeError name) | Some x \<Rightarrow> Inr x)"

text \<open>\<^verbatim>\<open>Encoder._create_state\<close>, called with the library bound.\<close>

definition create_state :: "'n world \<Rightarrow> encoder \<Rightarrow> 'n world \<times> (py_error + handle)" where
  "create_state w self =
     (case priv_lib w of
        None \<Rightarrow> (w, Inl (AttributeError ''opus_encoder_create''))
      | Some lib \<Rightarrow>
         (case getattr ''sampling_rate'' (sampling_rate self) of
            Inl e \<Rightarrow> (w, Inl e)
          | Inr s \<Rightarrow>
             (case getattr ''channels'' (channels self) of
                Inl e \<Rightarrow> (w, Inl e)
              | Inr c \<Rightarrow>
                 (case getattr ''application'' (application self) of
                    Inl e \<Rightarrow> (w, Inl e)
                  | Inr a \<Rightarrow>
                     (let (n', result, ret) = opus_encoder_create lib (native w) s c a;
                          w1 = w\<lparr>native := n', calls := calls w @ [EncoderCreate s c a]\<rparr>
                      in if ret \<noteq> 0
                         then (let (w2, err) = new_OpusError w1 ret in (w2, Inl err))
                         else (w1, Inr result))))))"

text \<open>\<^verbatim>\<open>int(self.sampling_rate / 1000 * self.frame_length)\<close>.\<close>

definition samples_per_frame_of :: "int \<Rightarrow> int \<Rightarrow> py_error + int" where
  "samples_per_frame_of sampling frame_len =
     (case int_truediv sampling 1000 of
        Inl e \<Rightarrow> Inl e
      | Inr q \<Rightarrow>
         (case float_mul_int q frame_len of
            Inl e \<Rightarrow> Inl e
          | Inr p \<Rightarrow> py_int p))"

text \<open>
  \<^verbatim>\<open>Encoder.__init__\<close> on a fresh object \<open>self\<close>. The object is returned in
  every case, also when the constructor raises, with the attributes assigned up to
  that point: it is the object the finalizer later runs on.
\<close>

definition Encoder_init ::
  "'n world \<Rightarrow> encoder \<Rightarrow> int \<Rightarrow> int \<Rightarrow> int \<Rightarrow> 'n world \<times> encoder \<times> (py_error + unit)" where
  "Encoder_init w self sampling chans app =
     (let self1 = self\<lparr>sampling_rate := Some sampling, channels := Some chans,
                       application := Some app, frame_length := Some 20,
                       sample_size := Some (2 * chans)\<rparr>
      in case samples_per_frame_of sampling 20 of
           Inl e \<Rightarrow> (w, self1, Inl e)
         | Inr spf \<Rightarrow>
            (let self2 = self1\<lparr>samples_per_frame := Some spf,
                               frame_size := Some (spf * (2 * chans))\<rparr>
             in if \<not> is_loaded w then (w, self2, Inl OpusNotLoaded)
                else case create_state w self2 of
                       (w1, Inl e) \<Rightarrow> (w1, self2, Inl e)
                     | (w1, Inr result) \<Rightarrow>
                         (w1, self2\<lparr>priv_state := Some (Some result)\<rparr>, Inr ())))"

text \<open>The constructor call \<^verbatim>\<open>Encoder(sampling, channels, application=APPLICATION_AUDIO)\<close>:
  an omitted third argument takes the default.\<close>

definition Encoder ::
  "'n world \<Rightarrow> int \<Rightarrow> int \<Rightarrow> int option \<Rightarrow> 'n world \<times> encoder \<times> (py_error + unit)" where
  "Encoder w sampling chans app =
     Encoder_init w new_object sampling chans
       (case app of None \<Rightarrow> APPLICATION_AUDIO | Some a \<Rightarrow> a)"

text \<open>\<^verbatim>\<open>Encoder.__del__\<close>.\<close>

definition Encoder_del :: "'n world \<Rightarrow> encoder \<Rightarrow> 'n world \<times> encoder \<times> (py_error + unit)" where
  "Encoder_del w self =
     (case priv_state self of
        None \<Rightarrow> (w, self, Inr ())
      | Some st \<Rightarrow>
         (case priv_lib w of
            None \<Rightarrow> (w, self, Inl (AttributeError ''opus_encoder_destroy''))
          | Some lib \<Rightarrow>
              (w\<lparr>native := opus_encoder_destroy lib (native w) st,
                 calls := calls w @ [EncoderDestroy st]\<rparr>,
               self\<lparr>priv_state := Some None\<rparr>, Inr ())))"

text \<open>
  \<^verbatim>\<open>Encoder.encode\<close>. The output buffer is a zero-filled array of
  \<^verbatim>\<open>len(pcm)\<close> chars; its length is fixed, so whatever the library reports as the
  buffer's contents is cut or padded (with the zeros left in place) to that length.
  \<^verbatim>\<open>data[:ret]\<close> with \<open>ret \<ge> 0\<close> is \<open>take\<close>, and the round trip through
  \<^verbatim>\<open>array.array('b', ...).tobytes()\<close> gives the same bytes back. There is no
  check of \<^verbatim>\<open>_state\<close>: when it is \<^verbatim>\<open>None\<close> the library is called with the null
  pointer, and the process dies there if the library reads through it.
\<close>

definition Encoder_encode ::
  "'n world \<Rightarrow> encoder \<Rightarrow> bytes \<Rightarrow> int \<Rightarrow> 'n world \<times> encoder \<times> (py_error + bytes)" where
  "Encoder_encode w self pcm frame_sz =
     (let max_data_bytes = int (length pcm);
          data = replicate (length pcm) (0 :: 8 word)
      in case priv_lib w of
           None \<Rightarrow> (w, self, Inl (AttributeError ''opus_encode''))
         | Some lib \<Rightarrow>
            (case getattr ''_state'' (priv_state self) of
               Inl e \<Rightarrow> (w, self, Inl e)
             | Inr st \<Rightarrow>
                if st = None \<and> null_encoder_fatal lib
                then (w\<lparr>calls := calls w @ [Encode st pcm frame_sz max_data_bytes]\<rparr>,
                      self, Inl Segfault)
                else
                (let (n', ret, out) =
                       opus_encode lib (native w) st pcm frame_sz data max_data_bytes;
                     data1 = take (length pcm) (out @ drop (length out) data);
                     w1 = w\<lparr>native := n',
                            calls := calls w @ [Encode st pcm frame_sz max_data_bytes]\<rparr>
                 in if ret < 0
                    then (let (w2, err) = new_OpusError w1 ret in (w2, self, Inl err))
                    else (w1, self, Inr (take (nat ret) data1)))))"

section \<open>The command context\<close>

text \<open>Python values held by a \<^verbatim>\<open>Context\<close>: \<^verbatim>\<open>None\<close>, strings, ints, lists, dicts,
  and other objects (messages, bots, commands) by identity.\<close>

datatype pyval =
    PyNone
  | PyStr string
  | PyInt int
  | PyList "pyval list"
  | PyDict "(string \<times> pyval) list"
  | PyObj nat









section \<open>A small library and objects to run the model on\<close>

text \<open>
  A library that exports the five symbols. Its state counts the encoders created;
  it accepts the sampling rates and channel counts of Opus and reports \<open>-1\<close> for
  others; encoding reports \<open>-2\<close> for an output buffer with no room and otherwise
  writes one byte. Like libopus it reads the encoder through the pointer it is
  given, so a null encoder is fatal.
\<close>

definition demo_lib :: "nat cdll" where
  "demo_lib =
     \<lparr>exports = [''opus_strerror'', ''opus_encoder_get_size'', ''opus_encoder_create'',
                 ''opus_encode'', ''opus_encoder_destroy''],
      signatures = Map.empty,
      opus_strerror = (\<lambda>code. if code = - 1 then ''invalid argument''
                              else if code = - 2 then ''buffer too small''
                              else ''unknown error''),
      opus_encoder_get_size = (\<lambda>c. 0),
      opus_encoder_create = (\<lambda>n s c a.
         if s \<in> {8000, 12000, 16000, 24000, 48000} \<and> c \<in> {1, 2}
         then (Suc n, Suc n, 0) else (n, 0, - 1)),
      opus_encode = (\<lambda>n st pcm fs data mx.
         if mx < 1 then (n, - 2, data) else (n, 1, [248])),
      null_encoder_fatal = True,
      opus_encoder_destroy = (\<lambda>n st. n)\<rparr>"

text \<open>An operating system with that library and with one that lacks the symbols.\<close>

definition demo_env :: "nat os_env" where
  "demo_env =
     \<lparr>LoadLibrary = (\<lambda>name.
         if name = Some ''libopus.so.0'' then Some demo_lib
         else if name = Some ''libm.so.6'' then Some (demo_lib\<lparr>exports := [''cos'', ''sin'']\<rparr>)
         else None),
      find_library = (\<lambda>name. if name = ''opus'' then Some ''libopus.so.0'' else None)\<rparr>"

definition loaded_world :: "nat world" where
  "loaded_world = \<lparr>priv_lib = Some demo_lib, native = 0, calls = []\<rparr>"

definition unloaded_world :: "nat world" where
  "unloaded_world = \<lparr>priv_lib = None, native = 0, calls = []\<rparr>"

text \<open>The encoder \<^verbatim>\<open>Encoder(48000, 2)\<close> built in \<open>loaded_world\<close>, and the world
  and the object after its finalizer has run once.\<close>

definition ready_world :: "nat world" where
  "ready_world = fst (Encoder loaded_world 48000 2 None)"

definition ready_encoder :: encoder where
  "ready_encoder = fst (snd (Encoder loaded_world 48000 2 None))"

definition closed_world :: "nat world" where
  "closed_world = fst (Encoder_del ready_world ready_encoder)"

definition closed_encoder :: encoder where
  "closed_encoder = fst (snd (Encoder_del ready_world ready_encoder))"



section \<open>Properties of the float arithmetic\<close>

lemma round_half_even_of_int: "round_half_even (of_int n) = n"
  by (simp add: round_half_even_def)

lemma round_half_even_le:
  assumes "x \<le> of_int N"
  shows "round_half_even x \<le> N"
proof -
  have f: "\<lfloor>x\<rfloor> \<le> N" using assms by (simp add: floor_le_iff) 
  show ?thesis
  proof (cases "\<lfloor>x\<rfloor> = N")
    case True
    then have "x - of_int \<lfloor>x\<rfloor> \<le> 0" using assms by simp
    then show ?thesis using True by (simp add: round_half_even_def Let_def)
  next
    case False
    then have "\<lfloor>x\<rfloor> + 1 \<le> N" using f by simp
    then show ?thesis by (simp add: round_half_even_def Let_def)
  qed
qed

lemma round_half_even_nonneg: "0 \<le> x \<Longrightarrow> 0 \<le> round_half_even x"
  by (simp add: round_half_even_def Let_def)

lemma floor_log2_of_int_le:
  assumes "0 < k"
  shows "floor_log2 (of_int k) \<le> bitlen k - 1"
proof -
  have "bitlen 1 = 1" by (simp add: bitlen_alt_def)
  then show ?thesis using assms by (simp add: floor_log2_def Let_def)
qed

lemma floor_log2_lower:
  assumes "0 < x"
  shows "2 powi (floor_log2 x) \<le> x"
proof -
  obtain p q where pq: "quotient_of x = (p, q)" by (cases "quotient_of x")
  then have q: "0 < q" and x: "x = of_int p / of_int q"
    using quotient_of_denom_pos quotient_of_div by blast+
  have p: "0 < p" using assms q x by (simp add: zero_less_divide_iff)
  define d where "d = bitlen p - bitlen q"
  show ?thesis
  proof (cases "2 powi d \<le> x")
    case True
    then show ?thesis using pq by (simp add: floor_log2_def d_def)
  next
    case False
    have bp: "2 ^ nat (bitlen p - 1) \<le> p" using bitlen_bounds[OF p] by simp
    have bq: "q < 2 ^ nat (bitlen q)" using bitlen_bounds[OF q] by simp
    have bp1: "1 \<le> bitlen p" using p by (auto simp: bitlen_alt_def)
    have bq1: "0 \<le> bitlen q" by (rule bitlen_nonneg)
    have e: "d - 1 = (bitlen p - 1) - bitlen q" by (simp add: d_def)
    have "(2::rat) powi (d - 1) = 2 powi ((bitlen p - 1) - bitlen q)"
      by (simp only: e)
    also have "\<dots> = 2 powi (bitlen p - 1) / 2 powi (bitlen q)"
      by (rule power_int_diff) simp
    also have "\<dots> = 2 ^ nat (bitlen p - 1) / 2 ^ nat (bitlen q)"
      using bp1 bq1 by (simp add: power_int_def)
    also have "\<dots> \<le> of_int p / of_int q"
    proof -
      have a: "(2::rat) ^ nat (bitlen p - 1) \<le> of_int p"
        using bp by (metis of_int_le_iff of_int_numeral of_int_power)
      have b: "(of_int q :: rat) \<le> 2 ^ nat (bitlen q)"
        using bq by (metis less_imp_le of_int_le_iff of_int_numeral of_int_power)
      have c: "(0::rat) < of_int q" using q by simp
      show ?thesis using a b c p by (intro frac_le) auto
    qed
    finally show ?thesis using False pq x by (simp add: floor_log2_def d_def)
  qed
qed


lemma round_binary64_of_int:
  assumes "\<bar>n\<bar> < 2 ^ 53"
  shows "round_binary64 (of_int n) = Finite (of_int n)"
proof (cases "n = 0")
  case True
  then show ?thesis by (simp add: round_binary64_def)
next
  case False
  define k where "k = \<bar>n\<bar>"
  have k: "0 < k" "k < 2 ^ 53" using False assms by (simp_all add: k_def)
  have ax: "\<bar>of_int n :: rat\<bar> = of_int k" by (simp add: k_def)
  define e where "e = max (floor_log2 (of_int k) - 52) (- 1074)"
  have "bitlen k \<le> 53" using k by (simp add: bitlen_le_iff_power)
  then have "floor_log2 (of_int k) \<le> 52"
    using floor_log2_of_int_le[OF k(1)] by simp
  then have e0: "e \<le> 0" by (simp add: e_def)
  define N where "N = nat (- e)"
  have pe: "(2::rat) powi e = 1 / 2 ^ N"
    using e0 by (simp add: N_def power_int_def field_simps)
  have q: "of_int k / (2::rat) powi e = of_int (k * 2 ^ N)"
    by (simp add: pe)
  have m: "round_half_even (of_int k / 2 powi e) = k * 2 ^ N"
    by (simp only: q round_half_even_of_int)
  have y: "of_int k * 2 ^ N * (2::rat) powi e = of_int k"
    by (simp add: pe)
  have small: "\<not> (2::rat) ^ 1024 \<le> of_int k"
  proof -
    have "(of_int k :: rat) < of_int (2 ^ 53)" using k(2) by (simp only: of_int_less_iff)
    also have "\<dots> \<le> 2 ^ 1024" by simp
    finally show ?thesis by simp
  qed
  have "sgn (of_int n :: rat) * of_int k = of_int n"
    by (simp add: k_def sgn_if)
  then show ?thesis
    using False small
    by (simp add: round_binary64_def ax Let_def e_def[symmetric] m y)
qed

lemma round_binary64_bound:
  assumes "\<bar>x\<bar> \<le> 2 powi k" and "- 1074 \<le> k" and "k < 1024"
  shows "\<exists>y. round_binary64 x = Finite y \<and> \<bar>y\<bar> \<le> 2 powi k"
proof (cases "x = 0")
  case True
  then show ?thesis by (simp add: round_binary64_def)
next
  case False
  define a where "a = \<bar>x\<bar>"
  have a: "0 < a" using False by (simp add: a_def)
  define e where "e = max (floor_log2 a - 52) (- 1074)"
  have "floor_log2 a \<le> k"
  proof (rule ccontr)
    assume "\<not> floor_log2 a \<le> k"
    then have "(2::rat) powi k < 2 powi (floor_log2 a)"
      by (intro power_int_strict_increasing) simp_all
    also have "\<dots> \<le> a" by (rule floor_log2_lower[OF a])
    finally show False using assms(1) by (simp add: a_def)
  qed
  then have ek: "e \<le> k" using assms(2) by (simp add: e_def)
  define M where "M = nat (k - e)"
  have pk: "(2::rat) powi k = 2 ^ M * 2 powi e"
  proof -
    have "(2::rat) powi k = 2 powi ((k - e) + e)" by simp
    also have "\<dots> = 2 powi (k - e) * 2 powi e" by (rule power_int_add) simp
    also have "2 powi (k - e) = (2::rat) ^ M" using ek by (simp add: M_def power_int_def)
    finally show ?thesis .
  qed
  have pe: "(0::rat) < 2 powi e" by (simp add: power_int_def)
  define m where "m = round_half_even (a / 2 powi e)"
  have "a / 2 powi e \<le> 2 ^ M"
    using assms(1) pe by (simp add: a_def pk field_simps)
  then have "a / 2 powi e \<le> of_int (2 ^ M)" by simp
  then have mle: "m \<le> 2 ^ M" unfolding m_def by (rule round_half_even_le)
  have m0: "0 \<le> m" unfolding m_def using a pe by (intro round_half_even_nonneg) simp
  define y where "y = (of_int m :: rat) * 2 powi e"
  have y0: "0 \<le> y" using m0 pe by (simp add: y_def)
  have "(of_int m :: rat) \<le> of_int (2 ^ M)" using mle by (simp only: of_int_le_iff)
  then have "y \<le> 2 ^ M * 2 powi e" using pe by (simp add: y_def)
  then have yk: "y \<le> 2 powi k" by (simp add: pk)
  have "(2::rat) powi k < 2 powi 1024"
    using assms(3) by (intro power_int_strict_increasing) simp_all
  then have fin: "\<not> (2::rat) ^ 1024 \<le> y" using yk by simp
  have "\<bar>sgn x * y\<bar> \<le> 2 powi k" using yk y0 False by (simp add: abs_mult)
  moreover have "round_binary64 x = Finite (sgn x * y)"
    using False fin
    by (simp add: round_binary64_def Let_def a_def[symmetric] e_def[symmetric]
        m_def[symmetric] y_def[symmetric])
  ultimately show ?thesis by blast
qed


lemma round_half_even_ge:
  assumes "of_int N \<le> x"
  shows "N \<le> round_half_even x"
proof -
  have "N \<le> \<lfloor>x\<rfloor>" using assms by (simp add: le_floor_iff)
  then show ?thesis by (simp add: round_half_even_def Let_def)
qed

lemma round_binary64_overflow:
  assumes "2 ^ 1024 \<le> x"
  shows "round_binary64 x = Infinity False"
proof -
  have x0: "0 < x" using assms by (rule less_le_trans[rotated]) simp
  define e where "e = max (floor_log2 x - 52) (- 1074)"
  define m where "m = round_half_even (x / 2 powi e)"
  have pe: "(0::rat) < 2 powi e" by (simp add: power_int_def)
  have "(2::rat) ^ 1024 \<le> of_int m * 2 powi e"
  proof (cases "e \<le> 1024")
    case True
    define M where "M = nat (1024 - e)"
    have "(2::rat) powi 1024 = 2 powi ((1024 - e) + e)" by simp
    also have "\<dots> = 2 powi (1024 - e) * 2 powi e" by (rule power_int_add) simp
    also have "2 powi (1024 - e) = (2::rat) ^ M" using True by (simp add: M_def power_int_def)
    finally have p: "(2::rat) ^ 1024 = 2 ^ M * 2 powi e" by simp
    have "(2::rat) ^ M * 2 powi e \<le> x" using assms p by simp
    then have "(2::rat) ^ M \<le> x / 2 powi e" using pe by (simp add: field_simps)
    then have "of_int (2 ^ M) \<le> x / 2 powi e" by simp
    then have "2 ^ M \<le> m" unfolding m_def by (rule round_half_even_ge)
    then have "(of_int (2 ^ M) :: rat) \<le> of_int m" by (simp only: of_int_le_iff)
    then have "(2::rat) ^ M * 2 powi e \<le> of_int m * 2 powi e" using pe by simp
    then show ?thesis by (simp only: p)
  next
    case False
    then have e: "e = floor_log2 x - 52" by (simp add: e_def)
    have "(2::rat) powi (floor_log2 x) = 2 powi (52 + e)" by (simp add: e)
    also have "\<dots> = 2 powi 52 * 2 powi e" by (rule power_int_add) simp
    finally have "(2::rat) powi 52 * 2 powi e \<le> x" using floor_log2_lower[OF x0] by simp
    then have "(2::rat) powi 52 \<le> x / 2 powi e" using pe by (simp add: field_simps)
    moreover have "(1::rat) \<le> 2 powi 52" by simp
    ultimately have "(1::rat) \<le> x / 2 powi e" by (rule order_trans[rotated])
    then have "of_int 1 \<le> x / 2 powi e" by simp
    then have "1 \<le> m" unfolding m_def by (rule round_half_even_ge)
    then have "(of_int 1 :: rat) \<le> of_int m" by (simp only: of_int_le_iff)
    then have "1 * (2::rat) powi e \<le> of_int m * 2 powi e"
      using pe by (intro mult_right_mono) simp_all
    then have a: "(2::rat) powi e \<le> of_int m * 2 powi e" by simp
    have "(2::rat) powi 1024 \<le> 2 powi e"
      using False by (intro power_int_increasing) simp_all
    then have b: "(2::rat) ^ 1024 \<le> 2 powi e" by simp
    show ?thesis by (rule order_trans[OF b a])
  qed
  then show ?thesis
    using x0 by (simp add: round_binary64_def Let_def e_def[symmetric] m_def[symmetric])
qed

lemma float_of_int_20: "float_of_int 20 = Inr (Finite 20)"
  using round_binary64_of_int[of 20] by (simp add: float_of_int_def)

lemma samples_per_frame_of_exact:
  assumes "sampling mod 1000 = 0" and "\<bar>sampling\<bar> < 2 ^ 53"
  shows "samples_per_frame_of sampling 20 = Inr (sampling div 50)"
proof -
  obtain k where k: "sampling = 1000 * k" using assms(1) by (auto simp: mod_eq_0_iff_dvd)
  have kb: "\<bar>k\<bar> < 2 ^ 53" "\<bar>20 * k\<bar> < 2 ^ 53" using assms(2) k by (simp_all add: abs_mult)
  have q: "(of_int sampling :: rat) / 1000 = of_int k" by (simp add: k)
  have d: "int_truediv sampling 1000 = Inr (Finite (of_int k))"
    using round_binary64_of_int[OF kb(1)] by (simp add: int_truediv_def q)
  have "round_binary64 (of_int k * 20) = round_binary64 (of_int (20 * k))"
    by (simp add: mult.commute)
  also have "\<dots> = Finite (of_int (20 * k))" by (rule round_binary64_of_int[OF kb(2)])
  finally have m: "float_mul (Finite (of_int k)) (Finite 20) = Finite (of_int (20 * k))"
    by (simp only: float_mul.simps)
  have fm: "float_mul_int (Finite (of_int k)) 20 = Inr (Finite (of_int (20 * k)))"
    by (simp only: float_mul_int_def float_of_int_20 sum.case m)
  have "(if (0::rat) \<le> of_int (20 * k) then \<lfloor>of_int (20 * k) :: rat\<rfloor>
         else \<lceil>of_int (20 * k) :: rat\<rceil>) = 20 * k"
    by (simp only: floor_of_int ceiling_of_int if_cancel)
  then have pi: "py_int (Finite (of_int (20 * k))) = Inr (20 * k)"
    by (simp only: py_int.simps)
  have dv: "sampling div 50 = 20 * k" by (simp add: k)
  show ?thesis
    by (simp only: samples_per_frame_of_def d sum.case fm pi dv)
qed

lemma samples_per_frame_of_total:
  assumes "\<bar>sampling\<bar> \<le> 2 ^ 1000"
  shows "\<exists>n. samples_per_frame_of sampling 20 = Inr n"
proof -
  have "\<bar>(of_int sampling :: rat) / 1000\<bar> \<le> \<bar>of_int sampling\<bar>"
    by (simp add: field_simps)
  also have "\<dots> \<le> of_int (2 ^ 1000)" using assms by (simp only: of_int_abs[symmetric] of_int_le_iff)
  also have "\<dots> = 2 powi 1000" by simp
  finally obtain q where q: "round_binary64 (of_int sampling / 1000) = Finite q"
      and qb: "\<bar>q\<bar> \<le> 2 powi 1000"
    using round_binary64_bound[of "of_int sampling / 1000" 1000] by auto
  have "\<bar>q * 20\<bar> \<le> 2 powi 1000 * 2 powi 5" using qb by (simp add: abs_mult)
  also have "\<dots> = (2::rat) powi 1005" by simp
  finally obtain p where p: "round_binary64 (q * 20) = Finite p"
    using round_binary64_bound[of "q * 20" 1005] by auto
  show ?thesis
    by (simp add: samples_per_frame_of_def int_truediv_def q float_mul_int_def float_of_int_20 p)
qed

lemma samples_per_frame_of_overflow:
  "samples_per_frame_of (10 ^ 400) 20 = Inl OverflowError"
proof -
  have "(2::rat) ^ 1024 \<le> of_int (10 ^ 400) / of_int 1000" by simp
  then have "round_binary64 (of_int (10 ^ 400) / of_int 1000) = Infinity False"
    by (rule round_binary64_overflow)
  then show ?thesis by (simp only: samples_per_frame_of_def int_truediv_def, simp)
qed

section \<open>Frame geometry\<close>

lemma floor_geometry:
  assumes "sampling mod 1000 = 0"
  shows "\<lfloor>real_of_int sampling / 1000 * 20\<rfloor> = sampling div 50"
proof -
  obtain k where k: "sampling = 1000 * k" using assms by (auto simp: mod_eq_0_iff_dvd)
  have "real_of_int sampling / 1000 * 20 = of_int (20 * k)" by (simp add: k)
  then have "\<lfloor>real_of_int sampling / 1000 * 20\<rfloor> = 20 * k" by (simp only: floor_of_int)
  then show ?thesis by (simp add: k)
qed

text \<open>
  C1. For every valid sampling rate and every channel count, the constructor sets
  the frame length to 20 ms, \<open>sample_size = 2 * channels\<close>,
  \<open>samples_per_frame = floor (sampling_rate / 1000 * 20)\<close> and
  \<open>frame_size = samples_per_frame * sample_size\<close>. A valid sampling rate is a whole
  number of samples per millisecond that a float holds exactly, which covers the
  rates Opus accepts (8000, 12000, 16000, 24000, 48000). The attributes are
  assigned before the library is consulted, so they hold of the object whatever
  the outcome of the construction. The quotient is the real-number one; the code
  computes it in floating point.
\<close>

theorem Encoder_init_frame_geometry:
  assumes "sampling mod 1000 = 0" and "\<bar>sampling\<bar> < 2 ^ 53"
  shows "frame_length (fst (snd (Encoder_init w self sampling chans app))) = Some 20
       \<and> sample_size (fst (snd (Encoder_init w self sampling chans app))) = Some (2 * chans)
       \<and> samples_per_frame (fst (snd (Encoder_init w self sampling chans app)))
           = Some \<lfloor>real_of_int sampling / 1000 * 20\<rfloor>
       \<and> frame_size (fst (snd (Encoder_init w self sampling chans app)))
           = Some (\<lfloor>real_of_int sampling / 1000 * 20\<rfloor> * (2 * chans))"
proof -
  have spf: "samples_per_frame_of sampling 20 = Inr \<lfloor>real_of_int sampling / 1000 * 20\<rfloor>"
    using samples_per_frame_of_exact[OF assms] floor_geometry[OF assms(1)] by simp
  show ?thesis
    by (simp add: Encoder_init_def spf Let_def split: prod.splits sum.splits)
qed

text \<open>The example of the specification: 48000 Hz, two channels.\<close>

theorem Encoder_init_frame_geometry_witness:
  "(48000 :: int) mod 1000 = 0 \<and> \<bar>48000 :: int\<bar> < 2 ^ 53
   \<and> frame_length (fst (snd (Encoder_init loaded_world new_object 48000 2 APPLICATION_AUDIO))) = Some 20
   \<and> sample_size (fst (snd (Encoder_init loaded_world new_object 48000 2 APPLICATION_AUDIO))) = Some 4
   \<and> samples_per_frame (fst (snd (Encoder_init loaded_world new_object 48000 2 APPLICATION_AUDIO))) = Some 960
   \<and> frame_size (fst (snd (Encoder_init loaded_world new_object 48000 2 APPLICATION_AUDIO))) = Some 3840"
  using Encoder_init_frame_geometry[of 48000 loaded_world new_object 2 APPLICATION_AUDIO]
  by simp

section \<open>The example objects, evaluated\<close>

lemma samples_per_frame_of_48000: "samples_per_frame_of 48000 20 = Inr 960"
  using samples_per_frame_of_exact[of 48000] by simp

lemma Encoder_loaded_world:
  "Encoder loaded_world 48000 2 None =
     (\<lparr>priv_lib = Some demo_lib, native = Suc 0, calls = [EncoderCreate 48000 2 2049]\<rparr>,
      \<lparr>sampling_rate = Some 48000, channels = Some 2, application = Some 2049,
       frame_length = Some 20, sample_size = Some 4, samples_per_frame = Some 960,
       frame_size = Some 3840, priv_state = Some (Some (Suc 0))\<rparr>,
      Inr ())"
  by (simp add: Encoder_def Encoder_init_def samples_per_frame_of_48000 loaded_world_def
      new_object_def is_loaded_def create_state_def getattr_def demo_lib_def
      APPLICATION_AUDIO_def)

lemma ready_world_eq:
  "ready_world = \<lparr>priv_lib = Some demo_lib, native = Suc 0, calls = [EncoderCreate 48000 2 2049]\<rparr>"
  by (simp add: ready_world_def Encoder_loaded_world)

lemma ready_encoder_eq:
  "ready_encoder =
     \<lparr>sampling_rate = Some 48000, channels = Some 2, application = Some 2049,
      frame_length = Some 20, sample_size = Some 4, samples_per_frame = Some 960,
      frame_size = Some 3840, priv_state = Some (Some (Suc 0))\<rparr>"
  by (simp add: ready_encoder_def Encoder_loaded_world)

lemma Encoder_del_ready:
  "Encoder_del ready_world ready_encoder =
     (\<lparr>priv_lib = Some demo_lib, native = Suc 0,
       calls = [EncoderCreate 48000 2 2049, EncoderDestroy (Some (Suc 0))]\<rparr>,
      \<lparr>sampling_rate = Some 48000, channels = Some 2, application = Some 2049,
       frame_length = Some 20, sample_size = Some 4, samples_per_frame = Some 960,
       frame_size = Some 3840, priv_state = Some None\<rparr>,
      Inr ())"
  by (simp add: Encoder_del_def ready_world_eq ready_encoder_eq demo_lib_def)

lemma closed_world_eq:
  "closed_world = \<lparr>priv_lib = Some demo_lib, native = Suc 0,
       calls = [EncoderCreate 48000 2 2049, EncoderDestroy (Some (Suc 0))]\<rparr>"
  by (simp add: closed_world_def Encoder_del_ready)

lemma closed_encoder_eq:
  "closed_encoder =
     \<lparr>sampling_rate = Some 48000, channels = Some 2, application = Some 2049,
      frame_length = Some 20, sample_size = Some 4, samples_per_frame = Some 960,
      frame_size = Some 3840, priv_state = Some None\<rparr>"
  by (simp add: closed_encoder_def Encoder_del_ready)

section \<open>Encoding\<close>

text \<open>What \<^verbatim>\<open>encode\<close> does once the library is bound and \<^verbatim>\<open>_state\<close> holds a
  pointer.\<close>

lemma Encoder_encode_bound:
  assumes "priv_lib w = Some lib" and "priv_state self = Some (Some h)"
    and "opus_encode lib (native w) (Some h) pcm frame_sz (replicate (length pcm) 0)
           (int (length pcm)) = (n', ret, out)"
  shows "Encoder_encode w self pcm frame_sz =
     (if ret < 0
      then (w\<lparr>native := n',
               calls := calls w @ [Encode (Some h) pcm frame_sz (int (length pcm)), Strerror ret]\<rparr>,
            self, Inl (OpusError ret (opus_strerror lib ret)))
      else (w\<lparr>native := n',
               calls := calls w @ [Encode (Some h) pcm frame_sz (int (length pcm))]\<rparr>,
            self,
            Inr (take (nat ret)
                  (take (length pcm) (out @ drop (length out) (replicate (length pcm) 0))))))"
  using assms
  by (simp add: Encoder_encode_def getattr_def new_OpusError_def Let_def)

text \<open>
  C2. An encode call on a Ready encoder (library bound, \<^verbatim>\<open>_state\<close> holding the
  pointer \<open>h\<close>) makes one native encode call, whose maximum output size is the
  byte length of \<open>pcm\<close>. If the status \<open>ret\<close> is negative the call raises
  \<open>OpusError\<close> with that status (after asking the library for the message);
  otherwise it returns the first \<open>ret\<close> bytes of the output buffer. The result is
  never longer than \<open>pcm\<close>.
\<close>

theorem Encoder_encode_ready:
  assumes "priv_lib w = Some lib" and "priv_state self = Some (Some h)"
    and "opus_encode lib (native w) (Some h) pcm frame_sz (replicate (length pcm) 0)
           (int (length pcm)) = (n', ret, out)"
  shows "\<exists>w' r. Encoder_encode w self pcm frame_sz = (w', self, r)
       \<and> calls w' = calls w @ Encode (Some h) pcm frame_sz (int (length pcm))
                               # (if ret < 0 then [Strerror ret] else [])
       \<and> (ret < 0 \<longrightarrow> r = Inl (OpusError ret (opus_strerror lib ret)))
       \<and> (0 \<le> ret \<longrightarrow>
            r = Inr (take (nat ret)
                      (take (length pcm) (out @ drop (length out) (replicate (length pcm) 0)))))
       \<and> (\<forall>b. r = Inr b \<longrightarrow> length b \<le> length pcm)"
proof -
  let ?buf = "take (length pcm) (out @ drop (length out) (replicate (length pcm) (0 :: 8 word)))"
  have "length (take k (take n xs)) \<le> n" for k n and xs :: bytes
    by simp
  then have len: "length (take (nat ret) ?buf) \<le> length pcm" .
  show ?thesis
  proof (cases "ret < 0")
    case True
    then show ?thesis using Encoder_encode_bound[OF assms] by simp
  next
    case False
    then have "Encoder_encode w self pcm frame_sz =
        (w\<lparr>native := n',
           calls := calls w @ [Encode (Some h) pcm frame_sz (int (length pcm))]\<rparr>,
         self, Inr (take (nat ret) ?buf))"
      using Encoder_encode_bound[OF assms] by (simp only: if_False)
    then show ?thesis using False len by simp
  qed
qed


text \<open>One frame of four bytes on the example encoder gives the one byte the
  example library writes.\<close>

theorem Encoder_encode_ready_witness:
  "priv_lib ready_world = Some demo_lib
   \<and> priv_state ready_encoder = Some (Some (Suc 0))
   \<and> opus_encode demo_lib (native ready_world) (Some (Suc 0)) [1, 2, 3, 4] 1
         (replicate (length [1, 2, 3, 4 :: 8 word]) 0) (int (length [1, 2, 3, 4 :: 8 word]))
       = (Suc 0, 1, [248])
   \<and> snd (snd (Encoder_encode ready_world ready_encoder [1, 2, 3, 4] 1)) = Inr [248]
   \<and> calls (fst (Encoder_encode ready_world ready_encoder [1, 2, 3, 4] 1))
       = [EncoderCreate 48000 2 2049, Encode (Some (Suc 0)) [1, 2, 3, 4] 1 4]"
  using Encoder_encode_ready[of ready_world demo_lib ready_encoder "Suc 0" "[1, 2, 3, 4]" 1
      "Suc 0" 1 "[248]"]
  by (auto simp: ready_world_eq ready_encoder_eq demo_lib_def)

text \<open>
  C7. When an encode call on a Ready encoder raises \<open>OpusError\<close> (the native status
  was negative), the encoder object is the same as before in every attribute, its
  \<^verbatim>\<open>_state\<close> still holds the pointer, the library is still bound, and any
  further encode call again reaches the native encode with that pointer.
\<close>

theorem Encoder_encode_error_nonfatal:
  assumes "priv_state self = Some (Some h)"
    and "Encoder_encode w self pcm frame_sz = (w', self', Inl (OpusError code msg))"
  shows "self' = self \<and> priv_state self' = Some (Some h) \<and> is_loaded w'
       \<and> priv_lib w' = priv_lib w \<and> code < 0
       \<and> (\<forall>pcm2 fs2. \<exists>w2 r2.
             Encoder_encode w' self' pcm2 fs2 = (w2, self', r2)
             \<and> take (Suc (length (calls w'))) (calls w2)
                 = calls w' @ [Encode (Some h) pcm2 fs2 (int (length pcm2))])"
proof -
  obtain lib where lib: "priv_lib w = Some lib"
    using assms(2) by (cases "priv_lib w") (auto simp: Encoder_encode_def)
  obtain n' ret out where enc:
    "opus_encode lib (native w) (Some h) pcm frame_sz (replicate (length pcm) 0)
       (int (length pcm)) = (n', ret, out)"
    by (rule prod_cases3)
  have neg: "ret < 0"
    using assms(2) Encoder_encode_bound[OF lib assms(1) enc] by (cases "ret < 0") auto
  then have res: "w' = w\<lparr>native := n',
        calls := calls w @ [Encode (Some h) pcm frame_sz (int (length pcm)), Strerror ret]\<rparr>"
      "self' = self" "code = ret"
    using assms(2) Encoder_encode_bound[OF lib assms(1) enc] by auto
  have lib': "priv_lib w' = Some lib" by (simp add: res(1) lib)
  have st': "priv_state self' = Some (Some h)" by (simp add: res(2) assms(1))
  have nxt: "\<exists>w2 r2. Encoder_encode w' self' pcm2 fs2 = (w2, self', r2)
             \<and> take (Suc (length (calls w'))) (calls w2)
                 = calls w' @ [Encode (Some h) pcm2 fs2 (int (length pcm2))]" for pcm2 fs2
  proof -
    obtain n2 ret2 out2 where enc2:
      "opus_encode lib (native w') (Some h) pcm2 fs2 (replicate (length pcm2) 0)
         (int (length pcm2)) = (n2, ret2, out2)"
      by (rule prod_cases3)
    show ?thesis
      using Encoder_encode_bound[OF lib' st' enc2] by (cases "ret2 < 0") auto
  qed
  show ?thesis
    using res lib lib' st' neg nxt by (simp add: is_loaded_def)
qed

text \<open>An empty \<open>pcm\<close> leaves the example library no room: status \<open>-2\<close>.\<close>

theorem Encoder_encode_error_nonfatal_witness:
  "priv_state ready_encoder = Some (Some (Suc 0))
   \<and> Encoder_encode ready_world ready_encoder [] 960
       = (\<lparr>priv_lib = Some demo_lib, native = Suc 0,
            calls = [EncoderCreate 48000 2 2049, Encode (Some (Suc 0)) [] 960 0,
                     Strerror (- 2)]\<rparr>,
          ready_encoder, Inl (OpusError (- 2) ''buffer too small''))
   \<and> is_loaded \<lparr>priv_lib = Some demo_lib, native = Suc 0,
            calls = [EncoderCreate 48000 2 2049, Encode (Some (Suc 0)) [] 960 0,
                     Strerror (- 2)]\<rparr>
   \<and> (- 2 :: int) < 0"
proof -
  have st: "priv_state ready_encoder = Some (Some (Suc 0))"
    by (simp add: ready_encoder_eq)
  have enc: "Encoder_encode ready_world ready_encoder [] 960
       = (\<lparr>priv_lib = Some demo_lib, native = Suc 0,
            calls = [EncoderCreate 48000 2 2049, Encode (Some (Suc 0)) [] 960 0,
                     Strerror (- 2)]\<rparr>,
          ready_encoder, Inl (OpusError (- 2) ''buffer too small''))"
    by (simp add: Encoder_encode_def getattr_def new_OpusError_def ready_world_eq
        ready_encoder_eq demo_lib_def)
  show ?thesis
    using st enc Encoder_encode_error_nonfatal[OF st enc]
    by (simp add: is_loaded_def ready_world_eq)
qed

section \<open>Teardown\<close>

text \<open>
  C3, as stated, fails: \<^verbatim>\<open>__del__\<close> tests only whether the attribute \<^verbatim>\<open>_state\<close>
  exists, and after the first run it exists and holds \<^verbatim>\<open>None\<close>. Run a second
  time on the example encoder, the finalizer calls \<^verbatim>\<open>opus_encoder_destroy\<close>
  again, with the null pointer.
\<close>

theorem Encoder_del_twice_counterexample:
  "calls (fst (Encoder_del closed_world closed_encoder))
     = [EncoderCreate 48000 2 2049, EncoderDestroy (Some (Suc 0)), EncoderDestroy None]
   \<and> calls (fst (Encoder_del closed_world closed_encoder)) \<noteq> calls closed_world"
  by (simp add: Encoder_del_def closed_world_eq closed_encoder_eq demo_lib_def)

text \<open>
  C3, amended. Teardown of an encoder that never reached Ready (no \<^verbatim>\<open>_state\<close>
  attribute) makes no native call, changes nothing and raises no error. Teardown of
  an encoder with \<^verbatim>\<open>_state\<close> set destroys what \<^verbatim>\<open>_state\<close> holds and
  clears it; a second teardown then raises no error and leaves the encoder as it
  is, and the one native call it makes passes the null pointer, never the pointer
  already destroyed.
\<close>

theorem Encoder_del_repeated:
  "(priv_state self = None \<longrightarrow> Encoder_del w self = (w, self, Inr ()))
   \<and> (\<forall>lib st. priv_lib w = Some lib \<and> priv_state self = Some st \<longrightarrow>
        (\<exists>w1 self1.
           Encoder_del w self = (w1, self1, Inr ())
           \<and> calls w1 = calls w @ [EncoderDestroy st]
           \<and> self1 = self\<lparr>priv_state := Some None\<rparr>
           \<and> Encoder_del w1 self1
               = (w1\<lparr>native := opus_encoder_destroy lib (native w1) None,
                      calls := calls w1 @ [EncoderDestroy None]\<rparr>,
                  self1, Inr ())))"
  by (simp add: Encoder_del_def)

text \<open>Both cases on the example objects: a fresh object, and the example encoder
  torn down twice.\<close>

theorem Encoder_del_repeated_witness:
  "priv_state new_object = None
   \<and> Encoder_del unloaded_world new_object = (unloaded_world, new_object, Inr ())
   \<and> priv_lib ready_world = Some demo_lib
   \<and> priv_state ready_encoder = Some (Some (Suc 0))
   \<and> Encoder_del ready_world ready_encoder = (closed_world, closed_encoder, Inr ())
   \<and> Encoder_del closed_world closed_encoder
       = (closed_world\<lparr>calls := calls closed_world @ [EncoderDestroy None]\<rparr>,
          closed_encoder, Inr ())"
proof -
  have a: "priv_state new_object = None" by (simp add: new_object_def)
  have b: "Encoder_del unloaded_world new_object = (unloaded_world, new_object, Inr ())"
    using Encoder_del_repeated[of new_object unloaded_world] a by simp
  have c: "priv_lib ready_world = Some demo_lib" by (simp add: ready_world_eq)
  have d: "priv_state ready_encoder = Some (Some (Suc 0))" by (simp add: ready_encoder_eq)
  have e: "Encoder_del ready_world ready_encoder = (closed_world, closed_encoder, Inr ())"
    by (simp add: closed_world_def closed_encoder_def Encoder_del_ready)
  have n: "opus_encoder_destroy demo_lib (native closed_world) None = native closed_world"
    by (simp add: demo_lib_def)
  have "\<exists>w1 self1.
           Encoder_del ready_world ready_encoder = (w1, self1, Inr ())
           \<and> calls w1 = calls ready_world @ [EncoderDestroy (Some (Suc 0))]
           \<and> self1 = ready_encoder\<lparr>priv_state := Some None\<rparr>
           \<and> Encoder_del w1 self1
               = (w1\<lparr>native := opus_encoder_destroy demo_lib (native w1) None,
                      calls := calls w1 @ [EncoderDestroy None]\<rparr>,
                  self1, Inr ())"
    using Encoder_del_repeated[of ready_encoder ready_world] c d by blast
  then have f: "Encoder_del closed_world closed_encoder
       = (closed_world\<lparr>calls := calls closed_world @ [EncoderDestroy None]\<rparr>,
          closed_encoder, Inr ())"
    using e n by auto
  show ?thesis using a b c d e f by simp
qed

section \<open>Encoding after teardown\<close>

text \<open>
  C4, as stated, fails: \<^verbatim>\<open>encode\<close> has no check of the encoder's state and the
  code has no closed-state error. On the example encoder after teardown the call
  goes to the library with the null pointer, and the process dies in the library:
  the caller gets no error of any kind.
\<close>

theorem Encoder_encode_after_close_counterexample:
  "Encoder_encode closed_world closed_encoder [1, 2, 3, 4] 1
     = (closed_world\<lparr>calls := calls closed_world @ [Encode None [1, 2, 3, 4] 1 4]\<rparr>,
        closed_encoder, Inl Segfault)"
  by (simp add: Encoder_encode_def getattr_def closed_world_eq closed_encoder_eq demo_lib_def)

text \<open>
  C4, amended. An encode call on an encoder whose teardown has run
  (\<^verbatim>\<open>_state\<close> is \<^verbatim>\<open>None\<close>) is not stopped by any check: the next thing it does is
  the native encode call, with the null pointer as encoder and the byte length of
  \<open>pcm\<close> as maximum output size. With a library that reads the encoder through
  that pointer, as libopus does, the process dies in that call, so the call raises
  neither a closed-state error nor \<open>OpusError\<close>.
\<close>

theorem Encoder_encode_closed:
  assumes "priv_lib w = Some lib" and "priv_state self = Some None"
  shows "\<exists>w' r. Encoder_encode w self pcm frame_sz = (w', self, r)
       \<and> take (Suc (length (calls w))) (calls w')
           = calls w @ [Encode None pcm frame_sz (int (length pcm))]
       \<and> (null_encoder_fatal lib \<longrightarrow>
            r = Inl Segfault
            \<and> w' = w\<lparr>calls := calls w @ [Encode None pcm frame_sz (int (length pcm))]\<rparr>)"
proof (cases "null_encoder_fatal lib")
  case True
  then show ?thesis
    using assms by (simp add: Encoder_encode_def getattr_def)
next
  case False
  obtain n' ret out where enc:
    "opus_encode lib (native w) None pcm frame_sz (replicate (length pcm) 0)
       (int (length pcm)) = (n', ret, out)"
    by (rule prod_cases3)
  show ?thesis
    using assms False enc
    by (cases "ret < 0") (simp_all add: Encoder_encode_def getattr_def new_OpusError_def)
qed

text \<open>The example encoder after teardown, with the example library.\<close>

theorem Encoder_encode_closed_witness:
  "priv_lib closed_world = Some demo_lib
   \<and> priv_state closed_encoder = Some None
   \<and> null_encoder_fatal demo_lib
   \<and> snd (snd (Encoder_encode closed_world closed_encoder [1, 2, 3, 4] 1)) = Inl Segfault
   \<and> calls (fst (Encoder_encode closed_world closed_encoder [1, 2, 3, 4] 1))
       = [EncoderCreate 48000 2 2049, EncoderDestroy (Some (Suc 0)),
          Encode None [1, 2, 3, 4] 1 4]"
proof -
  have a: "priv_lib closed_world = Some demo_lib" by (simp add: closed_world_eq)
  have b: "priv_state closed_encoder = Some None" by (simp add: closed_encoder_eq)
  have c: "null_encoder_fatal demo_lib" by (simp add: demo_lib_def)
  obtain w' r where
    "Encoder_encode closed_world closed_encoder [1, 2, 3, 4] 1 = (w', closed_encoder, r)"
    "r = Inl Segfault"
    "w' = closed_world\<lparr>calls := calls closed_world @ [Encode None [1, 2, 3, 4] 1
            (int (length [1, 2, 3, 4 :: 8 word]))]\<rparr>"
    using Encoder_encode_closed[OF a b, of "[1, 2, 3, 4]" 1] c by blast
  then show ?thesis using a b c by (simp add: closed_world_eq)
qed

section \<open>Construction without a library\<close>

text \<open>An error of the geometry computation leaves the constructor before the
  library is looked at.\<close>

lemma Encoder_init_geometry_error:
  assumes "samples_per_frame_of sampling 20 = Inl e"
  shows "snd (snd (Encoder_init w self sampling chans app)) = Inl e"
    and "fst (Encoder_init w self sampling chans app) = w"
  using assms by (simp_all add: Encoder_init_def)

text \<open>
  C5, as stated, fails: the frame geometry is computed before \<^verbatim>\<open>is_loaded()\<close>
  is asked, and the quotient \<^verbatim>\<open>sampling / 1000\<close> of the int \<open>10^400\<close> does not
  fit a float. With no library bound, \<^verbatim>\<open>Encoder(10**400, 2)\<close> raises
  \<open>OverflowError\<close>, not \<open>OpusNotLoaded\<close>.
\<close>

theorem Encoder_not_loaded_counterexample:
  "\<not> is_loaded unloaded_world
   \<and> snd (snd (Encoder unloaded_world (10 ^ 400) 2 None)) = Inl OverflowError"
proof -
  have "\<not> is_loaded unloaded_world"
    by (simp add: is_loaded_def unloaded_world_def)
  moreover have "snd (snd (Encoder unloaded_world (10 ^ 400) 2 None)) = Inl OverflowError"
    unfolding Encoder_def
    by (rule Encoder_init_geometry_error(1)[OF samples_per_frame_of_overflow])
  ultimately show ?thesis by (rule conjI)
qed

text \<open>
  C5, amended. Whenever construction is attempted with no library bound and a
  sampling rate of magnitude at most \<open>2^1000\<close> (every 32-bit and 64-bit value is
  one), it raises \<open>OpusNotLoaded\<close> and nothing else, and the world is unchanged:
  no native call is made.
\<close>

theorem Encoder_init_not_loaded:
  assumes "\<not> is_loaded w" and "\<bar>sampling\<bar> \<le> 2 ^ 1000"
  shows "\<exists>self'. Encoder_init w self sampling chans app = (w, self', Inl OpusNotLoaded)"
proof -
  obtain n where "samples_per_frame_of sampling 20 = Inr n"
    using samples_per_frame_of_total[OF assms(2)] by blast
  then show ?thesis using assms(1) by (simp add: Encoder_init_def)
qed

text \<open>\<^verbatim>\<open>Encoder(48000, 2)\<close> with no library bound.\<close>

theorem Encoder_init_not_loaded_witness:
  "\<not> is_loaded unloaded_world \<and> \<bar>48000 :: int\<bar> \<le> 2 ^ 1000
   \<and> fst (Encoder_init unloaded_world new_object 48000 2 APPLICATION_AUDIO) = unloaded_world
   \<and> snd (snd (Encoder_init unloaded_world new_object 48000 2 APPLICATION_AUDIO))
       = Inl OpusNotLoaded"
  using Encoder_init_not_loaded[of unloaded_world 48000 new_object 2 APPLICATION_AUDIO]
  by (auto simp: is_loaded_def unloaded_world_def)

section \<open>Application constants\<close>

text \<open>
  C9. The application constants are Audio = 2049, Voip = 2048 and LowDelay = 2051,
  the values of the Opus header, and a constructor call that omits the application
  is the call with \<open>APPLICATION_AUDIO\<close>: the encoder's \<open>application\<close> is 2049.
\<close>

theorem Encoder_application_constants:
  "APPLICATION_AUDIO = 2049 \<and> APPLICATION_VOIP = 2048 \<and> APPLICATION_LOWDELAY = 2051
   \<and> Encoder w sampling chans None = Encoder w sampling chans (Some APPLICATION_AUDIO)
   \<and> application (fst (snd (Encoder w sampling chans None))) = Some 2049"
  by (simp add: APPLICATION_AUDIO_def APPLICATION_VOIP_def APPLICATION_LOWDELAY_def
      Encoder_def Encoder_init_def Let_def split: sum.splits prod.splits)

section \<open>Failed loads\<close>

text \<open>The loader fails on the first symbol of the table that the library lacks.\<close>

lemma register_functions_missing:
  assumes "\<not> set (map fst items) \<subseteq> set (exports lib)"
  shows "\<exists>sym. sym \<in> set (map fst items) \<and> sym \<notin> set (exports lib)
           \<and> register_functions items lib = Inl (AttributeError sym)"
  using assms
proof (induction items arbitrary: lib)
  case Nil
  then show ?case by simp
next
  case (Cons item items)
  show ?case
  proof (cases "fst item \<in> set (exports lib)")
    case True
    let ?lib = "lib\<lparr>signatures := (signatures lib)(fst item \<mapsto> snd item)\<rparr>"
    have "\<not> set (map fst items) \<subseteq> set (exports ?lib)"
      using Cons.prems True by auto
    from Cons.IH[OF this] show ?thesis using True by auto
  next
    case False
    then show ?thesis by auto
  qed
qed

text \<open>
  C6. For every library name whose load fails, because the library cannot be
  opened or because it lacks a required symbol, \<^verbatim>\<open>load_opus\<close> raises and leaves
  \<^verbatim>\<open>_lib\<close> as it was, so \<^verbatim>\<open>is_loaded()\<close> answers as before. The code has no
  error class of its own for this: the exception of the failed step propagates,
  \<open>OSError\<close> from opening the library or \<open>AttributeError\<close> for the missing
  symbol, and that exception is the load error of the claim.
\<close>

theorem load_opus_failure:
  assumes "LoadLibrary env (Some name) = None
         \<or> (\<exists>lib. LoadLibrary env (Some name) = Some lib
                  \<and> \<not> set (map fst exported_functions) \<subseteq> set (exports lib))"
  shows "\<exists>e. load_opus env name w = (w, Inl e)
           \<and> (e = OSError \<or> (\<exists>sym. e = AttributeError sym))
           \<and> is_loaded (fst (load_opus env name w)) = is_loaded w"
proof -
  have "\<exists>e. libopus_loader env (Some name) = Inl e
            \<and> (e = OSError \<or> (\<exists>sym. e = AttributeError sym))"
    using assms
  proof
    assume "LoadLibrary env (Some name) = None"
    then show ?thesis by (simp add: libopus_loader_def)
  next
    assume "\<exists>lib. LoadLibrary env (Some name) = Some lib
                  \<and> \<not> set (map fst exported_functions) \<subseteq> set (exports lib)"
    then obtain lib where lib: "LoadLibrary env (Some name) = Some lib"
      and miss: "\<not> set (map fst exported_functions) \<subseteq> set (exports lib)" by blast
    from register_functions_missing[OF miss] lib show ?thesis
      by (auto simp: libopus_loader_def)
  qed
  then show ?thesis by (auto simp: load_opus_def)
qed

text \<open>A name that no library has, with and without a library bound before, and a
  library without the Opus symbols.\<close>

theorem load_opus_failure_witness:
  "LoadLibrary demo_env (Some ''definitely-nonexistent-library-xyz'') = None
   \<and> load_opus demo_env ''definitely-nonexistent-library-xyz'' loaded_world
       = (loaded_world, Inl OSError)
   \<and> load_opus demo_env ''definitely-nonexistent-library-xyz'' unloaded_world
       = (unloaded_world, Inl OSError)
   \<and> LoadLibrary demo_env (Some ''libm.so.6'') = Some (demo_lib\<lparr>exports := [''cos'', ''sin'']\<rparr>)
   \<and> \<not> set (map fst exported_functions) \<subseteq> set (exports (demo_lib\<lparr>exports := [''cos'', ''sin'']\<rparr>))
   \<and> load_opus demo_env ''libm.so.6'' unloaded_world
       = (unloaded_world, Inl (AttributeError ''opus_strerror''))
   \<and> \<not> is_loaded (fst (load_opus demo_env ''libm.so.6'' unloaded_world))"
  using load_opus_failure[of demo_env "''definitely-nonexistent-library-xyz''" loaded_world]
    load_opus_failure[of demo_env "''libm.so.6''" unloaded_world]
  by (simp add: demo_env_def load_opus_def libopus_loader_def exported_functions_def
      is_loaded_def unloaded_world_def)

section \<open>Dispatch of \<open>Context.invoke\<close>\<close>




section \<open>Construction of a \<open>Context\<close>\<close>









end
